theory Spec2Isabelle
  imports Main "HOL-Library.Word"
begin

unbundle bit_operations_syntax

section \<open>ChannelGroup\<close>

text \<open>
  A \<^verbatim>\<open>ChannelGroup\<close> holds two \<^verbatim>\<open>unsigned char\<close> members, the first channel of
  the group and the number of channels.
\<close>

record ChannelGroup =
  m_channelBase :: "8 word"
  m_channels :: "8 word"

definition getChannelBase :: "ChannelGroup \<Rightarrow> 8 word" where
  "getChannelBase g = m_channelBase g"

definition getChannelCount :: "ChannelGroup \<Rightarrow> 8 word" where
  "getChannelCount g = m_channels g"

text \<open>\<^verbatim>\<open>ChannelGroup::operator==\<close>: the same base channel and the same channel count.\<close>

definition ChannelGroup_eq :: "ChannelGroup \<Rightarrow> ChannelGroup \<Rightarrow> bool" where
  "ChannelGroup_eq g other \<longleftrightarrow>
     m_channelBase g = m_channelBase other \<and> m_channels g = m_channels other"

text \<open>
  \<^verbatim>\<open>ChannelGroup::clashesWith\<close>. The operands of \<^verbatim>\<open>+\<close>, \<^verbatim>\<open><\<close> and \<^verbatim>\<open>>\<close> are
  \<^verbatim>\<open>unsigned char\<close> values, which C++ promotes to \<^verbatim>\<open>int\<close> first: the sum of a base
  and a count is at most 510 and does not wrap around. The promoted values are read
  with \<^const>\<open>unat\<close>.
\<close>

definition clashesWith :: "ChannelGroup \<Rightarrow> ChannelGroup \<Rightarrow> bool" where
  "clashesWith g other =
     (if m_channels g = 0 \<or> m_channels other = 0 then False
      else (unat (m_channelBase g) > unat (m_channelBase other)
            \<and> unat (m_channelBase g) < unat (m_channelBase other) + unat (m_channels other))
         \<or> (unat (m_channelBase other) > unat (m_channelBase g)
            \<and> unat (m_channelBase other) < unat (m_channelBase g) + unat (m_channels g))
         \<or> m_channelBase g = m_channelBase other)"

text \<open>
  \<^verbatim>\<open>ChannelGroup::getHash\<close> returns \<^verbatim>\<open>0 | (m_channels << 8) | m_channelBase\<close> as an
  \<^verbatim>\<open>unsigned int\<close>; both members are promoted to 32 bits before the shift.
\<close>

definition ChannelGroup_getHash :: "ChannelGroup \<Rightarrow> 32 word" where
  "ChannelGroup_getHash g = 0 OR push_bit 8 (ucast (m_channels g)) OR ucast (m_channelBase g)"

text \<open>The channel indices a group claims: the half-open range from base to base + count.\<close>

definition channel_range :: "ChannelGroup \<Rightarrow> nat set" where
  "channel_range g = {unat (m_channelBase g) ..< unat (m_channelBase g) + unat (m_channels g)}"


section \<open>AudioPathType\<close>

text \<open>
  The enumerators of \<^verbatim>\<open>AudioPathType\<close>, in the order in which the \<^verbatim>\<open>switch\<close> of
  \<^verbatim>\<open>getStringFromType\<close> lists them. A value of the enumeration that is none of the
  enumerators is outside this type.
\<close>

datatype AudioPathType =
  INVALID | MASTER | HEADPHONES | BUS | DECK | VINYLCONTROL | MICROPHONE | AUXILLIARY

text \<open>
  The enumeration is declared in \<^verbatim>\<open>soundmanagerutil.h\<close>, which is not among the
  sources, so the integer value of each enumerator is not known from them. The
  declaration is a parameter of the functions that depend on it: the list of the
  enumerators in their order of declaration, the first with value 0 and each next one
  with the value after it.
\<close>

fun enum_value :: "AudioPathType list \<Rightarrow> AudioPathType \<Rightarrow> int" where
  "enum_value [] t = 0"
| "enum_value (e # es) t = (if e = t then 0 else 1 + enum_value es t)"

text \<open>
  \<^verbatim>\<open>static_cast<AudioPathType>(n)\<close>: the enumerator with value \<open>n\<close>, and \<open>None\<close> when
  the declaration has no enumerator with that value.
\<close>

definition enumerator_at :: "AudioPathType list \<Rightarrow> int \<Rightarrow> AudioPathType option" where
  "enumerator_at decl n =
     (if 0 \<le> n \<and> nat n < length decl then Some (decl ! nat n) else None)"

text \<open>
  Modelled from the spec: the order of the enumerators of \<^verbatim>\<open>AudioPathType\<close>, whose
  declaration in \<^verbatim>\<open>soundmanagerutil.h\<close> is missing. Section 3 of the specification
  gives it as INVALID=0, MASTER, HEADPHONES, BUS, DECK, VINYLCONTROL, MICROPHONE,
  AUXILIARY.
\<close>

definition spec_declaration :: "AudioPathType list" where
  "spec_declaration =
     [INVALID, MASTER, HEADPHONES, BUS, DECK, VINYLCONTROL, MICROPHONE, AUXILLIARY]"

subsection \<open>Strings\<close>

text \<open>
  A \<^verbatim>\<open>QString\<close> is a \<^typ>\<open>string\<close>. \<^verbatim>\<open>QString::toLower\<close> belongs to Qt; it is
  modelled on the ASCII letters, which is where every name of a type lies: the
  capital letters A to Z (codes 65 to 90) are moved to the small ones, every other
  character stays.
\<close>

definition toLower_char :: "char \<Rightarrow> char" where
  "toLower_char c =
     (if 65 \<le> (of_char c :: nat) \<and> (of_char c :: nat) \<le> 90
      then char_of (of_char c + 32 :: nat) else c)"

definition toLower :: "string \<Rightarrow> string" where
  "toLower s = map toLower_char s"

text \<open>
  \<^verbatim>\<open>AudioPath::getStringFromType\<close>. The \<^verbatim>\<open>switch\<close> covers every enumerator; the
  \<^verbatim>\<open>Unknown path type\<close> string after it is reached only by a value that is none of
  them.
\<close>

fun getStringFromType :: "AudioPathType \<Rightarrow> string" where
  "getStringFromType INVALID = ''Invalid''"
| "getStringFromType MASTER = ''Master''"
| "getStringFromType HEADPHONES = ''Headphones''"
| "getStringFromType BUS = ''Bus''"
| "getStringFromType DECK = ''Deck''"
| "getStringFromType VINYLCONTROL = ''Vinyl Control''"
| "getStringFromType MICROPHONE = ''Microphone''"
| "getStringFromType AUXILLIARY = ''Auxilliary''"

text \<open>\<^verbatim>\<open>AudioPath::getTypeFromString\<close>: the argument is lowercased first.\<close>

definition getTypeFromString :: "string \<Rightarrow> AudioPathType" where
  "getTypeFromString string0 =
     (let string = toLower string0 in
      if string = toLower (getStringFromType MASTER) then MASTER
      else if string = toLower (getStringFromType HEADPHONES) then HEADPHONES
      else if string = toLower (getStringFromType BUS) then BUS
      else if string = toLower (getStringFromType DECK) then DECK
      else if string = toLower (getStringFromType VINYLCONTROL) then VINYLCONTROL
      else if string = toLower (getStringFromType MICROPHONE) then MICROPHONE
      else if string = toLower (getStringFromType AUXILLIARY) then AUXILLIARY
      else INVALID)"

text \<open>\<^verbatim>\<open>AudioPath::isIndexed\<close>.\<close>

fun isIndexed :: "AudioPathType \<Rightarrow> bool" where
  "isIndexed BUS = True"
| "isIndexed DECK = True"
| "isIndexed VINYLCONTROL = True"
| "isIndexed AUXILLIARY = True"
| "isIndexed MICROPHONE = False"
| "isIndexed _ = False"

text \<open>
  \<^verbatim>\<open>AudioPath::getTypeFromInt\<close>: \<^verbatim>\<open>INVALID\<close> for a negative argument and for one
  that is not below the value of \<^verbatim>\<open>INVALID\<close>, the cast of the argument otherwise.
\<close>

definition getTypeFromInt :: "AudioPathType list \<Rightarrow> int \<Rightarrow> AudioPathType option" where
  "getTypeFromInt decl typeInt =
     (if typeInt < 0 \<or> typeInt \<ge> enum_value decl INVALID then Some INVALID
      else enumerator_at decl typeInt)"


section \<open>AudioPath, AudioOutput and AudioInput\<close>

text \<open>
  The members of the base class \<^verbatim>\<open>AudioPath\<close>. \<^verbatim>\<open>AudioOutput\<close> and
  \<^verbatim>\<open>AudioInput\<close> add no member; they differ in the types they support.
\<close>

record AudioPath =
  m_type :: AudioPathType
  m_index :: "8 word"
  m_channelGroup :: ChannelGroup

text \<open>\<^verbatim>\<open>AudioPath::operator==\<close> compares the type and the index.\<close>

definition AudioPath_eq :: "AudioPath \<Rightarrow> AudioPath \<Rightarrow> bool" where
  "AudioPath_eq p other \<longleftrightarrow> m_type p = m_type other \<and> m_index p = m_index other"

text \<open>
  \<^verbatim>\<open>AudioPath::getHash\<close> returns \<^verbatim>\<open>0 | (m_type << 8) | m_index\<close> as an
  \<^verbatim>\<open>unsigned int\<close>; the value of the type is the one its declaration gives it.
\<close>

definition AudioPath_getHash :: "AudioPathType list \<Rightarrow> AudioPath \<Rightarrow> 32 word" where
  "AudioPath_getHash decl p =
     0 OR push_bit 8 (word_of_int (enum_value decl (m_type p))) OR ucast (m_index p)"

definition channelsClash :: "AudioPath \<Rightarrow> AudioPath \<Rightarrow> bool" where
  "channelsClash p other = clashesWith (m_channelGroup p) (m_channelGroup other)"

text \<open>
  The constructor of the base class stores the channel group and leaves \<^verbatim>\<open>m_type\<close>
  and \<^verbatim>\<open>m_index\<close> unset; the constructors of both subclasses assign the two before
  they return, so the values the model starts them with are never read.
\<close>

definition AudioPath_base :: "8 word \<Rightarrow> 8 word \<Rightarrow> AudioPath" where
  "AudioPath_base channelBase channels =
     \<lparr>m_type = INVALID, m_index = 0,
      m_channelGroup = \<lparr>m_channelBase = channelBase, m_channels = channels\<rparr>\<rparr>"

subsection \<open>AudioOutput\<close>

definition AudioOutput_getSupportedTypes :: "AudioPathType list" where
  "AudioOutput_getSupportedTypes = [MASTER, HEADPHONES, BUS, DECK]"

definition AudioOutput_setType :: "AudioPathType \<Rightarrow> AudioPath \<Rightarrow> AudioPath" where
  "AudioOutput_setType type p =
     (if type \<in> set AudioOutput_getSupportedTypes then p\<lparr>m_type := type\<rparr>
      else p\<lparr>m_type := INVALID\<rparr>)"

text \<open>
  The constructor of \<^verbatim>\<open>AudioOutput\<close>: \<^verbatim>\<open>setType(type)\<close>, then the index is stored
  if \<^verbatim>\<open>isIndexed(type)\<close>, where \<^verbatim>\<open>type\<close> is the argument of the constructor.
\<close>

definition AudioOutput :: "AudioPathType \<Rightarrow> 8 word \<Rightarrow> 8 word \<Rightarrow> 8 word \<Rightarrow> AudioPath" where
  "AudioOutput type channelBase channels index =
     (let p = AudioOutput_setType type (AudioPath_base channelBase channels) in
      if isIndexed type then p\<lparr>m_index := index\<rparr> else p\<lparr>m_index := 0\<rparr>)"

subsection \<open>AudioInput\<close>

text \<open>
  \<^verbatim>\<open>AudioInput::getSupportedTypes\<close> lists \<^verbatim>\<open>VINYLCONTROL\<close> only when the macro
  \<^verbatim>\<open>__VINYLCONTROL__\<close> is defined at compile time; the flag \<open>vinylcontrol\<close> says
  whether it is.
\<close>

definition AudioInput_getSupportedTypes :: "bool \<Rightarrow> AudioPathType list" where
  "AudioInput_getSupportedTypes vinylcontrol =
     (if vinylcontrol then [VINYLCONTROL] else []) @ [AUXILLIARY, MICROPHONE]"

definition AudioInput_setType :: "bool \<Rightarrow> AudioPathType \<Rightarrow> AudioPath \<Rightarrow> AudioPath" where
  "AudioInput_setType vinylcontrol type p =
     (if type \<in> set (AudioInput_getSupportedTypes vinylcontrol) then p\<lparr>m_type := type\<rparr>
      else p\<lparr>m_type := INVALID\<rparr>)"

definition AudioInput :: "bool \<Rightarrow> AudioPathType \<Rightarrow> 8 word \<Rightarrow> 8 word \<Rightarrow> 8 word \<Rightarrow> AudioPath" where
  "AudioInput vinylcontrol type channelBase channels index =
     (let p = AudioInput_setType vinylcontrol type (AudioPath_base channelBase channels) in
      if isIndexed type then p\<lparr>m_index := index\<rparr> else p\<lparr>m_index := 0\<rparr>)"


section \<open>Records written to and read from XML\<close>

text \<open>
  What the routines use of a \<^verbatim>\<open>QDomElement\<close>: the name of its tag and its
  attributes, a map from names to values, both strings.
\<close>

record QDomElement =
  tagName :: string
  attributes :: "string \<rightharpoonup> string"

definition setTagName :: "string \<Rightarrow> QDomElement \<Rightarrow> QDomElement" where
  "setTagName name e = e\<lparr>tagName := name\<rparr>"

definition setAttribute :: "string \<Rightarrow> string \<Rightarrow> QDomElement \<Rightarrow> QDomElement" where
  "setAttribute name v e = e\<lparr>attributes := (attributes e)(name \<mapsto> v)\<rparr>"

text \<open>\<^verbatim>\<open>QDomElement::attribute(name, defValue)\<close>: the default when the attribute is absent.\<close>

definition attribute :: "QDomElement \<Rightarrow> string \<Rightarrow> string \<Rightarrow> string" where
  "attribute e name defValue = (case attributes e name of Some v \<Rightarrow> v | None \<Rightarrow> defValue)"

text \<open>
  \<^verbatim>\<open>setAttribute\<close> with a number writes it in decimal, without leading zeros, as
  \<^verbatim>\<open>QString::number\<close> does.
\<close>

definition digit_char :: "nat \<Rightarrow> char" where
  "digit_char d = char_of (48 + d)"

fun number :: "nat \<Rightarrow> string" where
  "number n = (if n < 10 then [digit_char n] else number (n div 10) @ [digit_char (n mod 10)])"

declare number.simps [simp del]

text \<open>
  \<^verbatim>\<open>QString::toUInt\<close> belongs to Qt; it is modelled on strings of decimal digits,
  which is what \<^verbatim>\<open>toXML\<close> writes: the number they denote if it fits 32 bits, and 0
  for a string that is empty, has another character or denotes a larger number (Qt
  returns 0 when the conversion fails).
\<close>

definition is_digit :: "char \<Rightarrow> bool" where
  "is_digit c \<longleftrightarrow> 48 \<le> (of_char c :: nat) \<and> (of_char c :: nat) \<le> 57"

definition decimal_value :: "string \<Rightarrow> nat" where
  "decimal_value s = foldl (\<lambda>acc c. 10 * acc + (of_char c - 48)) 0 s"

definition toUInt :: "string \<Rightarrow> 32 word" where
  "toUInt s =
     (if s \<noteq> [] \<and> list_all is_digit s \<and> decimal_value s < 2 ^ 32
      then word_of_nat (decimal_value s) else 0)"

text \<open>
  \<^verbatim>\<open>AudioOutput::toXML\<close> writes into the element it is given and returns a copy of
  it.
\<close>

definition AudioOutput_toXML :: "AudioPath \<Rightarrow> QDomElement \<Rightarrow> QDomElement" where
  "AudioOutput_toXML p element =
     (let e = setTagName ''output'' element;
          e = setAttribute ''type'' (getStringFromType (m_type p)) e;
          e = setAttribute ''index'' (number (unat (m_index p))) e;
          e = setAttribute ''channel'' (number (unat (getChannelBase (m_channelGroup p)))) e;
          e = setAttribute ''channel_count''
                (number (unat (getChannelCount (m_channelGroup p)))) e
      in e)"

text \<open>
  \<^verbatim>\<open>AudioOutput::fromXML\<close>. The three numbers are read as \<^verbatim>\<open>unsigned int\<close> and
  narrowed to \<^verbatim>\<open>unsigned char\<close> when they are passed to the constructor; the test
  for a channel count of 0 is made before the narrowing.
\<close>

definition AudioOutput_fromXML :: "QDomElement \<Rightarrow> AudioPath" where
  "AudioOutput_fromXML xml =
     (let type = getTypeFromString (attribute xml ''type'' []);
          index = toUInt (attribute xml ''index'' ''0'');
          channel = toUInt (attribute xml ''channel'' ''0'');
          channels = toUInt (attribute xml ''channel_count'' ''0'');
          channels = (if channels = 0 then (if type = MICROPHONE then 1 else 2) else channels)
      in AudioOutput type (ucast channel) (ucast channels) (ucast index))"

definition AudioInput_toXML :: "AudioPath \<Rightarrow> QDomElement \<Rightarrow> QDomElement" where
  "AudioInput_toXML p element =
     (let e = setTagName ''input'' element;
          e = setAttribute ''type'' (getStringFromType (m_type p)) e;
          e = setAttribute ''index'' (number (unat (m_index p))) e;
          e = setAttribute ''channel'' (number (unat (getChannelBase (m_channelGroup p)))) e;
          e = setAttribute ''channel_count''
                (number (unat (getChannelCount (m_channelGroup p)))) e
      in e)"

definition AudioInput_fromXML :: "bool \<Rightarrow> QDomElement \<Rightarrow> AudioPath" where
  "AudioInput_fromXML vinylcontrol xml =
     (let type = getTypeFromString (attribute xml ''type'' []);
          index = toUInt (attribute xml ''index'' ''0'');
          channel = toUInt (attribute xml ''channel'' ''0'');
          channels = toUInt (attribute xml ''channel_count'' ''0'');
          channels = (if channels = 0 then (if type = MICROPHONE then 1 else 2) else channels)
      in AudioInput vinylcontrol type (ucast channel) (ucast channels) (ucast index))"


section \<open>Properties of ChannelGroup\<close>

lemma ranges_meet_iff:
  fixes b1 c1 b2 c2 :: nat
  assumes "0 < c1" "0 < c2"
  shows "{b1 ..< b1 + c1} \<inter> {b2 ..< b2 + c2} \<noteq> {} \<longleftrightarrow>
         (b1 > b2 \<and> b1 < b2 + c2) \<or> (b2 > b1 \<and> b2 < b1 + c1) \<or> b1 = b2"
  using assms by (simp add: Int_atLeastLessThan) arith

lemma clashesWith_iff_ranges_meet:
  "clashesWith a b \<longleftrightarrow>
     m_channels a \<noteq> 0 \<and> m_channels b \<noteq> 0 \<and> channel_range a \<inter> channel_range b \<noteq> {}"
proof (cases "m_channels a = 0 \<or> m_channels b = 0")
  case True
  then show ?thesis by (auto simp: clashesWith_def)
next
  case False
  then have pos: "0 < unat (m_channels a)" "0 < unat (m_channels b)"
    by (simp_all add: unat_gt_0)
  have eq: "m_channelBase a = m_channelBase b
              \<longleftrightarrow> unat (m_channelBase a) = unat (m_channelBase b)"
    by (simp add: word_unat_eq_iff)
  show ?thesis
    using False ranges_meet_iff [OF pos, of "unat (m_channelBase a)" "unat (m_channelBase b)"]
    by (simp add: clashesWith_def channel_range_def eq)
qed

text \<open>
  Claim C1. \<^verbatim>\<open>clashesWith\<close> is false when either group has no channels; otherwise it
  is true exactly when the half-open ranges from base to base + count of the two groups
  share a channel index. Two groups with the same base and non-zero counts clash whatever
  the counts are, and a group that starts exactly where the other ends
  (\<^verbatim>\<open>base2 == base + count\<close>) does not clash with it: channels 0, 1 against channels
  2, 3 do not clash, channels 0, 1 against channels 1, 2 do.
\<close>

theorem clashesWith_overlap:
  "(clashesWith a b \<longleftrightarrow>
      m_channels a \<noteq> 0 \<and> m_channels b \<noteq> 0 \<and> channel_range a \<inter> channel_range b \<noteq> {})
   \<and> (m_channels a = 0 \<or> m_channels b = 0 \<longrightarrow> \<not> clashesWith a b)
   \<and> (m_channels a \<noteq> 0 \<and> m_channels b \<noteq> 0 \<and> m_channelBase a = m_channelBase b
        \<longrightarrow> clashesWith a b)
   \<and> (unat (m_channelBase b) = unat (m_channelBase a) + unat (m_channels a)
        \<longrightarrow> \<not> clashesWith a b)
   \<and> \<not> clashesWith \<lparr>m_channelBase = 0, m_channels = 2\<rparr> \<lparr>m_channelBase = 2, m_channels = 2\<rparr>
   \<and> clashesWith \<lparr>m_channelBase = 0, m_channels = 2\<rparr> \<lparr>m_channelBase = 1, m_channels = 2\<rparr>"
proof -
  have zero: "m_channels a = 0 \<or> m_channels b = 0 \<longrightarrow> \<not> clashesWith a b"
    by (simp add: clashesWith_def)
  have same: "m_channels a \<noteq> 0 \<and> m_channels b \<noteq> 0 \<and> m_channelBase a = m_channelBase b
        \<longrightarrow> clashesWith a b"
    by (simp add: clashesWith_def)
  have abut: "unat (m_channelBase b) = unat (m_channelBase a) + unat (m_channels a)
        \<longrightarrow> \<not> clashesWith a b"
  proof
    assume adj: "unat (m_channelBase b) = unat (m_channelBase a) + unat (m_channels a)"
    show "\<not> clashesWith a b"
    proof (cases "m_channels a = 0 \<or> m_channels b = 0")
      case True
      then show ?thesis by (simp add: clashesWith_def)
    next
      case False
      then have "0 < unat (m_channels a)" by (simp add: unat_gt_0)
      with adj have "unat (m_channelBase a) < unat (m_channelBase b)" by simp
      with adj False show ?thesis by (auto simp: clashesWith_def)
    qed
  qed
  have ex1: "\<not> clashesWith \<lparr>m_channelBase = 0, m_channels = 2\<rparr>
                           \<lparr>m_channelBase = 2, m_channels = 2\<rparr>"
    by (simp add: clashesWith_def)
  have ex2: "clashesWith \<lparr>m_channelBase = 0, m_channels = 2\<rparr>
                         \<lparr>m_channelBase = 1, m_channels = 2\<rparr>"
    by (simp add: clashesWith_def)
  from clashesWith_iff_ranges_meet zero same abut ex1 ex2 show ?thesis by blast
qed

theorem clashesWith_overlap_witness:
  "(m_channels \<lparr>m_channelBase = 0, m_channels = 0\<rparr> = 0
      \<and> \<not> clashesWith \<lparr>m_channelBase = 0, m_channels = 0\<rparr> \<lparr>m_channelBase = 0, m_channels = 2\<rparr>)
   \<and> (m_channels \<lparr>m_channelBase = 3, m_channels = 1\<rparr> \<noteq> 0
      \<and> m_channels \<lparr>m_channelBase = 3, m_channels = 5\<rparr> \<noteq> 0
      \<and> clashesWith \<lparr>m_channelBase = 3, m_channels = 1\<rparr> \<lparr>m_channelBase = 3, m_channels = 5\<rparr>)
   \<and> (unat (m_channelBase \<lparr>m_channelBase = 6, m_channels = 2\<rparr>)
        = unat (m_channelBase \<lparr>m_channelBase = 4, m_channels = 2\<rparr>)
          + unat (m_channels \<lparr>m_channelBase = 4, m_channels = 2\<rparr>)
      \<and> \<not> clashesWith \<lparr>m_channelBase = 4, m_channels = 2\<rparr> \<lparr>m_channelBase = 6, m_channels = 2\<rparr>)"
  using clashesWith_overlap [of "\<lparr>m_channelBase = 0, m_channels = 0\<rparr>"
                                "\<lparr>m_channelBase = 0, m_channels = 2\<rparr>", THEN conjunct2]
        clashesWith_overlap [of "\<lparr>m_channelBase = 3, m_channels = 1\<rparr>"
                                "\<lparr>m_channelBase = 3, m_channels = 5\<rparr>", THEN conjunct2]
        clashesWith_overlap [of "\<lparr>m_channelBase = 4, m_channels = 2\<rparr>"
                                "\<lparr>m_channelBase = 6, m_channels = 2\<rparr>", THEN conjunct2]
  by simp

text \<open>
  Claim C8. The clash predicate is commutative: \<^verbatim>\<open>a.clashesWith(b)\<close> equals
  \<^verbatim>\<open>b.clashesWith(a)\<close> for every pair of channel groups.
\<close>

theorem clashesWith_commute: "clashesWith a b = clashesWith b a"
  by (auto simp: clashesWith_def)

text \<open>
  Claim C10. A channel group clashes with itself exactly when its channel count is
  greater than 0.
\<close>

theorem clashesWith_self: "clashesWith g g \<longleftrightarrow> 0 < unat (m_channels g)"
  by (simp add: clashesWith_def unat_gt_0)

lemma unat_u8_less: "unat (w :: 8 word) < 256"
  using unsigned_less [of w, where 'a = nat] by simp

lemma unat_ucast_8_32: "unat (ucast (w :: 8 word) :: 32 word) = unat w"
  using unat_u8_less [of w] by (simp add: unsigned_ucast_eq take_bit_nat_eq_self)

lemma shift_or_add:
  fixes c b :: "8 word"
  shows "(push_bit 8 (ucast c) OR ucast b :: 32 word) = push_bit 8 (ucast c) + ucast b"
  by (rule disjunctive_add [symmetric]) (auto simp: bit_simps dest: bit_imp_le_length)

lemma ChannelGroup_getHash_unat:
  "unat (ChannelGroup_getHash g) = unat (m_channels g) * 256 + unat (m_channelBase g)"
proof -
  have c: "unat (m_channels g) < 256" and b: "unat (m_channelBase g) < 256"
    by (rule unat_u8_less)+
  have "ChannelGroup_getHash g = push_bit 8 (ucast (m_channels g)) + ucast (m_channelBase g)"
    by (simp add: ChannelGroup_getHash_def shift_or_add)
  also have "\<dots> = ucast (m_channels g) * 256 + ucast (m_channelBase g)"
    by (simp add: push_bit_eq_mult)
  finally have "unat (ChannelGroup_getHash g)
      = (unat (m_channels g) * 256 mod 2 ^ 32 + unat (m_channelBase g)) mod 2 ^ 32"
    by (simp only: unat_word_ariths unat_ucast_8_32) simp
  also have "\<dots> = unat (m_channels g) * 256 + unat (m_channelBase g)"
    using c b by simp
  finally show ?thesis .
qed

lemma base256_inj:
  fixes c1 b1 c2 b2 :: nat
  assumes "c1 * 256 + b1 = c2 * 256 + b2" "b1 < 256" "b2 < 256"
  shows "c1 = c2 \<and> b1 = b2"
proof -
  have "(c1 * 256 + b1) div 256 = c1" "(c2 * 256 + b2) div 256 = c2"
    "(c1 * 256 + b1) mod 256 = b1" "(c2 * 256 + b2) mod 256 = b2"
    using assms(2,3) by simp_all
  with assms(1) show ?thesis by metis
qed

text \<open>
  Claim C9. \<^verbatim>\<open>ChannelGroup::getHash\<close> is injective on the two 8-bit members: the
  hashes of two groups are equal if and only if the groups are equal under
  \<^verbatim>\<open>operator==\<close>, and the hash is count * 256 + base.
\<close>

theorem ChannelGroup_getHash_inj:
  "(ChannelGroup_getHash a = ChannelGroup_getHash b \<longleftrightarrow> ChannelGroup_eq a b)
   \<and> unat (ChannelGroup_getHash a) = unat (m_channels a) * 256 + unat (m_channelBase a)"
proof -
  have "ChannelGroup_eq a b" if "ChannelGroup_getHash a = ChannelGroup_getHash b"
  proof -
    from that have "unat (m_channels a) * 256 + unat (m_channelBase a)
        = unat (m_channels b) * 256 + unat (m_channelBase b)"
      by (simp add: ChannelGroup_getHash_unat [symmetric])
    then have "unat (m_channels a) = unat (m_channels b)
        \<and> unat (m_channelBase a) = unat (m_channelBase b)"
      by (rule base256_inj) (rule unat_u8_less)+
    then show ?thesis by (simp add: ChannelGroup_eq_def word_unat_eq_iff)
  qed
  moreover have "ChannelGroup_getHash a = ChannelGroup_getHash b" if "ChannelGroup_eq a b"
    using that by (simp add: ChannelGroup_eq_def ChannelGroup_getHash_def)
  ultimately show ?thesis using ChannelGroup_getHash_unat [of a] by blast
qed


section \<open>Properties of AudioPathType\<close>

lemmas string_eval = toLower_def toLower_char_def char_of_def bit_0

lemma getTypeFromString_getStringFromType: "getTypeFromString (getStringFromType t) = t"
  by (cases t) (simp_all add: getTypeFromString_def string_eval)

text \<open>
  Claim C5. For every type \<open>t\<close> other than \<^verbatim>\<open>INVALID\<close>, parsing the lowercased name of
  \<open>t\<close> gives \<open>t\<close> back; and a string that, compared without regard to case, is the name
  of no type is parsed to \<^verbatim>\<open>INVALID\<close>.
\<close>

theorem getTypeFromString_roundtrip:
  "(t \<noteq> INVALID \<longrightarrow> getTypeFromString (toLower (getStringFromType t)) = t)
   \<and> ((\<forall>u. toLower s \<noteq> toLower (getStringFromType u)) \<longrightarrow> getTypeFromString s = INVALID)"
proof -
  have "getTypeFromString (toLower (getStringFromType t)) = t" if "t \<noteq> INVALID"
    using that by (cases t) (simp_all add: getTypeFromString_def string_eval)
  moreover have "getTypeFromString s = INVALID"
    if "\<forall>u. toLower s \<noteq> toLower (getStringFromType u)"
    using that [rule_format, of MASTER] that [rule_format, of HEADPHONES]
      that [rule_format, of BUS] that [rule_format, of DECK]
      that [rule_format, of VINYLCONTROL] that [rule_format, of MICROPHONE]
      that [rule_format, of AUXILLIARY]
    by (simp add: getTypeFromString_def Let_def)
  ultimately show ?thesis by blast
qed

theorem getTypeFromString_roundtrip_witness:
  "BUS \<noteq> INVALID \<and> getTypeFromString (toLower (getStringFromType BUS)) = BUS
   \<and> (\<forall>u. toLower ''Line In'' \<noteq> toLower (getStringFromType u))
   \<and> getTypeFromString ''Line In'' = INVALID"
proof -
  have h: "\<forall>u. toLower ''Line In'' \<noteq> toLower (getStringFromType u)"
  proof
    fix u show "toLower ''Line In'' \<noteq> toLower (getStringFromType u)"
      by (cases u) (simp_all add: string_eval)
  qed
  show ?thesis using h getTypeFromString_roundtrip [of BUS "''Line In''"] by simp
qed

subsection \<open>The values of the enumerators\<close>

lemma enum_value_nonneg: "0 \<le> enum_value decl t"
  by (induction decl) simp_all

lemma enum_value_member:
  "t \<in> set decl \<Longrightarrow>
     nat (enum_value decl t) < length decl \<and> decl ! nat (enum_value decl t) = t"
proof (induction decl)
  case Nil
  then show ?case by simp
next
  case (Cons e es)
  show ?case
  proof (cases "e = t")
    case True
    then show ?thesis by simp
  next
    case False
    with Cons have "nat (enum_value es t) < length es \<and> es ! nat (enum_value es t) = t"
      by simp
    moreover have "nat (1 + enum_value es t) = Suc (nat (enum_value es t))"
      using enum_value_nonneg [of es t] by simp
    ultimately show ?thesis using False by simp
  qed
qed

lemma enum_value_nth:
  "distinct decl \<Longrightarrow> i < length decl \<Longrightarrow> enum_value decl (decl ! i) = int i"
proof (induction decl arbitrary: i)
  case Nil
  then show ?case by simp
next
  case (Cons e es)
  show ?case
  proof (cases i)
    case 0
    then show ?thesis by simp
  next
    case (Suc j)
    with Cons.prems have "j < length es" "es ! j \<in> set es" "e \<notin> set es" "distinct es"
      by simp_all
    then have "e \<noteq> es ! j" "enum_value es (es ! j) = int j" using Cons.IH by auto
    with Suc show ?thesis by simp
  qed
qed

lemma enum_value_last:
  assumes "distinct decl" "decl \<noteq> []"
  shows "enum_value decl (last decl) = int (length decl) - 1"
proof -
  have "enum_value decl (decl ! (length decl - 1)) = int (length decl - 1)"
    using assms by (intro enum_value_nth) simp_all
  with assms(2) show ?thesis by (simp add: last_conv_nth of_nat_diff Suc_leI)
qed

lemma enum_value_inj:
  assumes "s \<in> set decl" "t \<in> set decl" "enum_value decl s = enum_value decl t"
  shows "s = t"
proof -
  have "s = decl ! nat (enum_value decl s)" using enum_value_member [OF assms(1)] by simp
  also have "\<dots> = decl ! nat (enum_value decl t)" by (simp only: assms(3))
  also have "\<dots> = t" using enum_value_member [OF assms(2)] by simp
  finally show ?thesis .
qed

lemma enum_value_before_last:
  assumes "distinct decl" "t \<in> set decl" "t \<noteq> last decl"
  shows "enum_value decl t < enum_value decl (last decl)"
proof -
  from assms(2) have ne: "decl \<noteq> []" by auto
  then have l: "last decl \<in> set decl" by simp
  have "nat (enum_value decl t) < length decl" using enum_value_member [OF assms(2)] by simp
  then have "enum_value decl t \<le> int (length decl) - 1" by simp
  moreover have "enum_value decl t \<noteq> enum_value decl (last decl)"
    using enum_value_inj [OF assms(2) l] assms(3) by auto
  ultimately show ?thesis using enum_value_last [OF assms(1) ne] by simp
qed

lemma UNIV_AudioPathType:
  "UNIV = {INVALID, MASTER, HEADPHONES, BUS, DECK, VINYLCONTROL, MICROPHONE, AUXILLIARY}"
  by (auto intro: AudioPathType.exhaust)

text \<open>
  Claim C6, as amended. For every declaration that lists each enumerator once and
  \<^verbatim>\<open>INVALID\<close> last, \<^verbatim>\<open>getTypeFromInt\<close> returns \<^verbatim>\<open>INVALID\<close> for every argument
  that is negative or at least the value of \<^verbatim>\<open>INVALID\<close>, and the enumerator with
  value \<open>n\<close> for every other argument \<open>n\<close>: it maps -1 and the value of \<^verbatim>\<open>INVALID\<close> to
  \<^verbatim>\<open>INVALID\<close>, and the value of \<^verbatim>\<open>BUS\<close> to \<^verbatim>\<open>BUS\<close>.
\<close>

theorem getTypeFromInt_INVALID_last:
  assumes "distinct decl" and "set decl = UNIV" and "last decl = INVALID"
  shows "(n < 0 \<or> n \<ge> enum_value decl INVALID \<longrightarrow> getTypeFromInt decl n = Some INVALID)
     \<and> (0 \<le> n \<and> n < enum_value decl INVALID \<longrightarrow>
          (\<exists>t. enum_value decl t = n \<and> getTypeFromInt decl n = Some t))
     \<and> getTypeFromInt decl (- 1) = Some INVALID
     \<and> getTypeFromInt decl (enum_value decl INVALID) = Some INVALID
     \<and> getTypeFromInt decl (enum_value decl BUS) = Some BUS"
proof -
  from assms(2) have ne: "decl \<noteq> []" by auto
  have inv: "enum_value decl INVALID = int (length decl) - 1"
    using enum_value_last [OF assms(1) ne] assms(3) by simp
  have outside: "n < 0 \<or> n \<ge> enum_value decl INVALID \<longrightarrow> getTypeFromInt decl n = Some INVALID"
    by (simp add: getTypeFromInt_def)
  have inside: "\<exists>t. enum_value decl t = n \<and> getTypeFromInt decl n = Some t"
    if "0 \<le> n \<and> n < enum_value decl INVALID"
  proof -
    from that inv have lt: "nat n < length decl" by linarith
    have "enum_value decl (decl ! nat n) = n"
      using enum_value_nth [OF assms(1) lt] that by simp
    moreover have "getTypeFromInt decl n = Some (decl ! nat n)"
      using that lt by (simp add: getTypeFromInt_def enumerator_at_def)
    ultimately show ?thesis by blast
  qed
  have bus: "getTypeFromInt decl (enum_value decl BUS) = Some BUS"
  proof -
    have mem: "BUS \<in> set decl" using assms(2) by simp
    have "enum_value decl BUS < enum_value decl INVALID"
      using enum_value_before_last [OF assms(1) mem] assms(3) by simp
    then show ?thesis
      using enum_value_member [OF mem] enum_value_nonneg [of decl BUS]
      by (simp add: getTypeFromInt_def enumerator_at_def)
  qed
  have "getTypeFromInt decl (- 1) = Some INVALID"
    by (simp add: getTypeFromInt_def)
  moreover have "getTypeFromInt decl (enum_value decl INVALID) = Some INVALID"
    by (simp add: getTypeFromInt_def)
  ultimately show ?thesis using outside inside bus by blast
qed

theorem getTypeFromInt_INVALID_last_witness:
  "distinct [MASTER, HEADPHONES, BUS, DECK, VINYLCONTROL, MICROPHONE, AUXILLIARY, INVALID]
   \<and> set [MASTER, HEADPHONES, BUS, DECK, VINYLCONTROL, MICROPHONE, AUXILLIARY, INVALID] = UNIV
   \<and> last [MASTER, HEADPHONES, BUS, DECK, VINYLCONTROL, MICROPHONE, AUXILLIARY, INVALID]
       = INVALID
   \<and> enum_value [MASTER, HEADPHONES, BUS, DECK, VINYLCONTROL, MICROPHONE, AUXILLIARY, INVALID]
       INVALID = 7
   \<and> getTypeFromInt [MASTER, HEADPHONES, BUS, DECK, VINYLCONTROL, MICROPHONE, AUXILLIARY, INVALID]
       9 = Some INVALID
   \<and> enum_value [MASTER, HEADPHONES, BUS, DECK, VINYLCONTROL, MICROPHONE, AUXILLIARY, INVALID]
       BUS = 2
   \<and> getTypeFromInt [MASTER, HEADPHONES, BUS, DECK, VINYLCONTROL, MICROPHONE, AUXILLIARY, INVALID]
       2 = Some BUS"
proof -
  let ?d = "[MASTER, HEADPHONES, BUS, DECK, VINYLCONTROL, MICROPHONE, AUXILLIARY, INVALID]"
  have d: "distinct ?d" by simp
  have u: "set ?d = UNIV" by (auto simp: UNIV_AudioPathType)
  have l: "last ?d = INVALID" by simp
  show ?thesis using d u l getTypeFromInt_INVALID_last [OF d u l, of 9] by simp
qed

text \<open>
  Claim C6 as the specification states it, with \<^verbatim>\<open>INVALID\<close> declared first and so of
  value 0: the test \<^verbatim>\<open>typeInt >= INVALID\<close> then holds for every argument that is not
  negative, and the value of \<^verbatim>\<open>BUS\<close> is mapped to \<^verbatim>\<open>INVALID\<close>, not to \<^verbatim>\<open>BUS\<close>.
\<close>

theorem getTypeFromInt_spec_declaration_counterexample:
  "getTypeFromInt spec_declaration (enum_value spec_declaration BUS) \<noteq> Some BUS"
  by (simp add: getTypeFromInt_def spec_declaration_def)


section \<open>Properties of the routes\<close>

lemma AudioOutput_fields:
  "m_type (AudioOutput t b c i) = (if t \<in> set AudioOutput_getSupportedTypes then t else INVALID)"
  "m_index (AudioOutput t b c i) = (if isIndexed t then i else 0)"
  "m_channelGroup (AudioOutput t b c i) = \<lparr>m_channelBase = b, m_channels = c\<rparr>"
  by (simp_all add: AudioOutput_def AudioOutput_setType_def AudioPath_base_def Let_def)

lemma AudioInput_fields:
  "m_type (AudioInput vc t b c i)
     = (if t \<in> set (AudioInput_getSupportedTypes vc) then t else INVALID)"
  "m_index (AudioInput vc t b c i) = (if isIndexed t then i else 0)"
  "m_channelGroup (AudioInput vc t b c i) = \<lparr>m_channelBase = b, m_channels = c\<rparr>"
  by (simp_all add: AudioInput_def AudioInput_setType_def AudioPath_base_def Let_def)

lemma AudioPath_eqI:
  fixes p q :: AudioPath
  shows "m_type p = m_type q \<Longrightarrow> m_index p = m_index q
     \<Longrightarrow> m_channelGroup p = m_channelGroup q \<Longrightarrow> p = q"
  by simp

text \<open>
  Claim C4. An output route constructed with \<^verbatim>\<open>MICROPHONE\<close> and an input route
  constructed with \<^verbatim>\<open>MASTER\<close> have the type \<^verbatim>\<open>INVALID\<close>. An output supports
  \<^verbatim>\<open>MASTER\<close>, \<^verbatim>\<open>HEADPHONES\<close>, \<^verbatim>\<open>BUS\<close> and \<^verbatim>\<open>DECK\<close>, an input
  \<^verbatim>\<open>AUXILLIARY\<close> and \<^verbatim>\<open>MICROPHONE\<close>, and \<^verbatim>\<open>VINYLCONTROL\<close> when vinyl control is
  compiled in; constructing a route with any other type gives a route of type
  \<^verbatim>\<open>INVALID\<close>. The constructors are total functions: a route is returned for every
  argument.
\<close>

theorem unsupported_type_coerced:
  "m_type (AudioOutput MICROPHONE b c i) = INVALID
   \<and> m_type (AudioInput vc MASTER b c i) = INVALID
   \<and> set AudioOutput_getSupportedTypes = {MASTER, HEADPHONES, BUS, DECK}
   \<and> set (AudioInput_getSupportedTypes vc)
       = (if vc then {AUXILLIARY, MICROPHONE, VINYLCONTROL} else {AUXILLIARY, MICROPHONE})
   \<and> (type \<notin> set AudioOutput_getSupportedTypes \<longrightarrow> m_type (AudioOutput type b c i) = INVALID)
   \<and> (type \<notin> set (AudioInput_getSupportedTypes vc)
        \<longrightarrow> m_type (AudioInput vc type b c i) = INVALID)
   \<and> (type \<in> set AudioOutput_getSupportedTypes \<longrightarrow> m_type (AudioOutput type b c i) = type)
   \<and> (type \<in> set (AudioInput_getSupportedTypes vc)
        \<longrightarrow> m_type (AudioInput vc type b c i) = type)"
proof -
  have "m_type (AudioOutput MICROPHONE b c i) = INVALID"
    by (simp add: AudioOutput_fields AudioOutput_getSupportedTypes_def)
  moreover have "m_type (AudioInput vc MASTER b c i) = INVALID"
    by (simp add: AudioInput_fields AudioInput_getSupportedTypes_def)
  moreover have "set AudioOutput_getSupportedTypes = {MASTER, HEADPHONES, BUS, DECK}"
    by (simp add: AudioOutput_getSupportedTypes_def)
  moreover have "set (AudioInput_getSupportedTypes vc)
       = (if vc then {AUXILLIARY, MICROPHONE, VINYLCONTROL} else {AUXILLIARY, MICROPHONE})"
    by (auto simp: AudioInput_getSupportedTypes_def)
  moreover have "type \<notin> set AudioOutput_getSupportedTypes
      \<longrightarrow> m_type (AudioOutput type b c i) = INVALID"
    by (simp add: AudioOutput_fields)
  moreover have "type \<notin> set (AudioInput_getSupportedTypes vc)
      \<longrightarrow> m_type (AudioInput vc type b c i) = INVALID"
    by (simp add: AudioInput_fields)
  moreover have "type \<in> set AudioOutput_getSupportedTypes
      \<longrightarrow> m_type (AudioOutput type b c i) = type"
    by (simp add: AudioOutput_fields)
  moreover have "type \<in> set (AudioInput_getSupportedTypes vc)
      \<longrightarrow> m_type (AudioInput vc type b c i) = type"
    by (simp add: AudioInput_fields)
  ultimately show ?thesis by blast
qed

theorem unsupported_type_coerced_witness:
  "(AUXILLIARY \<notin> set AudioOutput_getSupportedTypes
      \<and> m_type (AudioOutput AUXILLIARY 0 2 1) = INVALID)
   \<and> (VINYLCONTROL \<notin> set (AudioInput_getSupportedTypes False)
      \<and> m_type (AudioInput False VINYLCONTROL 0 2 1) = INVALID)
   \<and> (DECK \<in> set AudioOutput_getSupportedTypes \<and> m_type (AudioOutput DECK 0 2 1) = DECK)
   \<and> (VINYLCONTROL \<in> set (AudioInput_getSupportedTypes True)
      \<and> m_type (AudioInput True VINYLCONTROL 0 2 1) = VINYLCONTROL)"
proof -
  have 1: "AUXILLIARY \<notin> set AudioOutput_getSupportedTypes"
    by (simp add: AudioOutput_getSupportedTypes_def)
  have 2: "VINYLCONTROL \<notin> set (AudioInput_getSupportedTypes False)"
    by (simp add: AudioInput_getSupportedTypes_def)
  have 3: "DECK \<in> set AudioOutput_getSupportedTypes"
    by (simp add: AudioOutput_getSupportedTypes_def)
  have 4: "VINYLCONTROL \<in> set (AudioInput_getSupportedTypes True)"
    by (simp add: AudioInput_getSupportedTypes_def)
  show ?thesis
    using 1 2 3 4
      unsupported_type_coerced [of 0 2 1 False AUXILLIARY, THEN conjunct2]
      unsupported_type_coerced [of 0 2 1 False VINYLCONTROL, THEN conjunct2]
      unsupported_type_coerced [of 0 2 1 True DECK, THEN conjunct2]
      unsupported_type_coerced [of 0 2 1 True VINYLCONTROL, THEN conjunct2]
    by blast
qed

text \<open>
  Claim C2 says that a route whose type was coerced to \<^verbatim>\<open>INVALID\<close> has index 0. The
  constructors test \<^verbatim>\<open>isIndexed\<close> on their argument, not on the type that
  \<^verbatim>\<open>setType\<close> stored: an output constructed with \<^verbatim>\<open>VINYLCONTROL\<close> and index 5, and
  an input constructed with \<^verbatim>\<open>DECK\<close> and index 3, have the type \<^verbatim>\<open>INVALID\<close>, which
  is not indexed, and keep the index.
\<close>

theorem coerced_route_keeps_index:
  "m_type (AudioOutput VINYLCONTROL 0 2 5) = INVALID
   \<and> \<not> isIndexed (m_type (AudioOutput VINYLCONTROL 0 2 5))
   \<and> m_index (AudioOutput VINYLCONTROL 0 2 5) = 5
   \<and> m_type (AudioInput True DECK 0 2 3) = INVALID
   \<and> \<not> isIndexed (m_type (AudioInput True DECK 0 2 3))
   \<and> m_index (AudioInput True DECK 0 2 3) = 3"
  by (simp add: AudioOutput_fields AudioInput_fields AudioOutput_getSupportedTypes_def
      AudioInput_getSupportedTypes_def)

text \<open>
  Claim C7. Two routes with the same type and the same index are equal under
  \<^verbatim>\<open>operator==\<close> and have the same hash, whatever their channel groups are; two routes
  that differ in the type or in the index are not equal.
\<close>

theorem AudioPath_eq_type_index:
  "(m_type a = m_type b \<and> m_index a = m_index b
      \<longrightarrow> AudioPath_eq a b \<and> AudioPath_getHash decl a = AudioPath_getHash decl b)
   \<and> (m_type a \<noteq> m_type b \<or> m_index a \<noteq> m_index b \<longrightarrow> \<not> AudioPath_eq a b)"
  by (simp add: AudioPath_eq_def AudioPath_getHash_def)

theorem AudioPath_eq_type_index_witness:
  "(m_type (AudioOutput DECK 0 2 1) = m_type (AudioOutput DECK 4 2 1)
      \<and> m_index (AudioOutput DECK 0 2 1) = m_index (AudioOutput DECK 4 2 1)
      \<and> m_channelGroup (AudioOutput DECK 0 2 1) \<noteq> m_channelGroup (AudioOutput DECK 4 2 1)
      \<and> AudioPath_eq (AudioOutput DECK 0 2 1) (AudioOutput DECK 4 2 1)
      \<and> AudioPath_getHash
           [MASTER, HEADPHONES, BUS, DECK, VINYLCONTROL, MICROPHONE, AUXILLIARY, INVALID]
           (AudioOutput DECK 0 2 1)
         = AudioPath_getHash
             [MASTER, HEADPHONES, BUS, DECK, VINYLCONTROL, MICROPHONE, AUXILLIARY, INVALID]
             (AudioOutput DECK 4 2 1))
   \<and> (m_index (AudioOutput DECK 0 2 1) \<noteq> m_index (AudioOutput DECK 0 2 2)
      \<and> \<not> AudioPath_eq (AudioOutput DECK 0 2 1) (AudioOutput DECK 0 2 2))"
proof -
  have 1: "m_type (AudioOutput DECK 0 2 1) = m_type (AudioOutput DECK 4 2 1)
      \<and> m_index (AudioOutput DECK 0 2 1) = m_index (AudioOutput DECK 4 2 1)"
    by (simp add: AudioOutput_fields)
  have 2: "m_channelGroup (AudioOutput DECK 0 2 1) \<noteq> m_channelGroup (AudioOutput DECK 4 2 1)"
    by (simp add: AudioOutput_fields)
  have 3: "m_index (AudioOutput DECK 0 2 1) \<noteq> m_index (AudioOutput DECK 0 2 2)"
    by (simp add: AudioOutput_fields)
  show ?thesis
    using 1 2 3
      AudioPath_eq_type_index [of "AudioOutput DECK 0 2 1" "AudioOutput DECK 4 2 1"
        "[MASTER, HEADPHONES, BUS, DECK, VINYLCONTROL, MICROPHONE, AUXILLIARY, INVALID]"]
      AudioPath_eq_type_index [of "AudioOutput DECK 0 2 1" "AudioOutput DECK 0 2 2"
        "[MASTER, HEADPHONES, BUS, DECK, VINYLCONTROL, MICROPHONE, AUXILLIARY, INVALID]"]
    by blast
qed


section \<open>Writing a route and reading it back\<close>

subsection \<open>Numbers in decimal\<close>

lemma of_char_digit_char: "d < 10 \<Longrightarrow> (of_char (digit_char d) :: nat) = 48 + d"
  by (simp add: digit_char_def)

lemma is_digit_digit_char: "d < 10 \<Longrightarrow> is_digit (digit_char d)"
  by (simp add: is_digit_def of_char_digit_char)

lemma decimal_value_snoc:
  "decimal_value (s @ [c]) = 10 * decimal_value s + (of_char c - 48)"
  by (simp add: decimal_value_def)

lemma number_not_Nil: "number n \<noteq> []"
  by (subst number.simps) simp

lemma number_digits: "list_all is_digit (number n)"
proof (induction n rule: number.induct)
  case (1 n)
  show ?case
  proof (cases "n < 10")
    case True
    then show ?thesis by (subst number.simps) (simp add: is_digit_digit_char)
  next
    case False
    with 1 show ?thesis by (subst number.simps) (simp add: is_digit_digit_char)
  qed
qed

lemma decimal_value_number: "decimal_value (number n) = n"
proof (induction n rule: number.induct)
  case (1 n)
  show ?case
  proof (cases "n < 10")
    case True
    then show ?thesis
      by (subst number.simps) (simp add: decimal_value_def of_char_digit_char)
  next
    case False
    with 1 have "decimal_value (number (n div 10)) = n div 10" by simp
    with False show ?thesis
      by (subst number.simps) (simp add: decimal_value_snoc of_char_digit_char)
  qed
qed

lemma toUInt_number: "n < 2 ^ 32 \<Longrightarrow> toUInt (number n) = word_of_nat n"
  by (simp add: toUInt_def number_not_Nil number_digits decimal_value_number)

lemma toUInt_number_u8: "toUInt (number (unat (w :: 8 word))) = ucast w"
proof -
  have "unat w < 2 ^ 32" using unat_u8_less [of w] by simp
  then show ?thesis by (simp add: toUInt_number)
qed

lemma ucast_ucast_u8: "ucast (ucast (w :: 8 word) :: 32 word) = w"
  by (rule bit_word_eqI) (simp add: bit_simps)

lemma ucast_u8_eq_0: "(ucast (w :: 8 word) :: 32 word) = 0 \<longleftrightarrow> w = 0"
  using ucast_ucast_u8 [of w] by (metis ucast_0)

lemma ucast_channels_read:
  "(ucast (if (ucast (c :: 8 word) :: 32 word) = 0 then (if t = MICROPHONE then 1 else 2)
           else ucast c :: 32 word) :: 8 word)
     = (if c = 0 then (if t = MICROPHONE then 1 else 2) else c)"
  by (simp add: ucast_u8_eq_0 ucast_ucast_u8)

subsection \<open>The record read back\<close>

text \<open>
  Reading back what \<^verbatim>\<open>toXML\<close> wrote for any route calls the constructor with the
  stored type, base and index, and with the stored channel count unless it is 0.
\<close>

lemma AudioOutput_fromXML_toXML:
  "AudioOutput_fromXML (AudioOutput_toXML p e)
     = AudioOutput (m_type p) (m_channelBase (m_channelGroup p))
         (if m_channels (m_channelGroup p) = 0 then (if m_type p = MICROPHONE then 1 else 2)
          else m_channels (m_channelGroup p))
         (m_index p)"
  by (simp add: AudioOutput_fromXML_def AudioOutput_toXML_def setTagName_def setAttribute_def
      attribute_def getChannelBase_def getChannelCount_def Let_def toUInt_number_u8
      getTypeFromString_getStringFromType ucast_channels_read ucast_ucast_u8)

lemma AudioInput_fromXML_toXML:
  "AudioInput_fromXML vc (AudioInput_toXML p e)
     = AudioInput vc (m_type p) (m_channelBase (m_channelGroup p))
         (if m_channels (m_channelGroup p) = 0 then (if m_type p = MICROPHONE then 1 else 2)
          else m_channels (m_channelGroup p))
         (m_index p)"
  by (simp add: AudioInput_fromXML_def AudioInput_toXML_def setTagName_def setAttribute_def
      attribute_def getChannelBase_def getChannelCount_def Let_def toUInt_number_u8
      getTypeFromString_getStringFromType ucast_channels_read ucast_ucast_u8)

text \<open>
  Claim C3. A route is validly constructed when the type given to its constructor is one
  its direction supports. Writing such a route with \<^verbatim>\<open>toXML\<close>, into any element, and
  reading the element with \<^verbatim>\<open>fromXML\<close> gives the same route, with the same type,
  index and channel group, when its channel count is not 0; when the count is 0 the route
  read back differs in the channel count only, which is 1 for a microphone and 2 for
  every other type.
\<close>

theorem toXML_fromXML_roundtrip:
  "(type \<in> set AudioOutput_getSupportedTypes \<longrightarrow>
      (c \<noteq> 0 \<longrightarrow>
         AudioOutput_fromXML (AudioOutput_toXML (AudioOutput type b c i) e)
           = AudioOutput type b c i)
    \<and> (c = 0 \<longrightarrow>
         AudioOutput_fromXML (AudioOutput_toXML (AudioOutput type b c i) e)
           = (AudioOutput type b c i)\<lparr>m_channelGroup :=
                \<lparr>m_channelBase = b, m_channels = (if type = MICROPHONE then 1 else 2)\<rparr>\<rparr>))
   \<and> (type \<in> set (AudioInput_getSupportedTypes vc) \<longrightarrow>
      (c \<noteq> 0 \<longrightarrow>
         AudioInput_fromXML vc (AudioInput_toXML (AudioInput vc type b c i) e)
           = AudioInput vc type b c i)
    \<and> (c = 0 \<longrightarrow>
         AudioInput_fromXML vc (AudioInput_toXML (AudioInput vc type b c i) e)
           = (AudioInput vc type b c i)\<lparr>m_channelGroup :=
                \<lparr>m_channelBase = b, m_channels = (if type = MICROPHONE then 1 else 2)\<rparr>\<rparr>))"
proof -
  have out_nz: "AudioOutput_fromXML (AudioOutput_toXML (AudioOutput type b c i) e)
      = AudioOutput type b c i"
    if "type \<in> set AudioOutput_getSupportedTypes" "c \<noteq> 0"
    using that
    by (intro AudioPath_eqI) (simp_all add: AudioOutput_fromXML_toXML AudioOutput_fields)
  have out_z: "AudioOutput_fromXML (AudioOutput_toXML (AudioOutput type b c i) e)
      = (AudioOutput type b c i)\<lparr>m_channelGroup := \<lparr>m_channelBase = b,
            m_channels = (if type = MICROPHONE then 1 else 2)\<rparr>\<rparr>"
    if "type \<in> set AudioOutput_getSupportedTypes" "c = 0"
    using that
    by (intro AudioPath_eqI) (simp_all add: AudioOutput_fromXML_toXML AudioOutput_fields)
  have in_nz: "AudioInput_fromXML vc (AudioInput_toXML (AudioInput vc type b c i) e)
      = AudioInput vc type b c i"
    if "type \<in> set (AudioInput_getSupportedTypes vc)" "c \<noteq> 0"
    using that
    by (intro AudioPath_eqI) (simp_all add: AudioInput_fromXML_toXML AudioInput_fields)
  have in_z: "AudioInput_fromXML vc (AudioInput_toXML (AudioInput vc type b c i) e)
      = (AudioInput vc type b c i)\<lparr>m_channelGroup := \<lparr>m_channelBase = b,
            m_channels = (if type = MICROPHONE then 1 else 2)\<rparr>\<rparr>"
    if "type \<in> set (AudioInput_getSupportedTypes vc)" "c = 0"
    using that
    by (intro AudioPath_eqI) (simp_all add: AudioInput_fromXML_toXML AudioInput_fields)
  from out_nz out_z in_nz in_z show ?thesis by blast
qed

theorem toXML_fromXML_roundtrip_witness:
  "(DECK \<in> set AudioOutput_getSupportedTypes \<and> (2 :: 8 word) \<noteq> 0
      \<and> AudioOutput_fromXML (AudioOutput_toXML (AudioOutput DECK 4 2 1)
            \<lparr>tagName = [], attributes = Map.empty\<rparr>)
          = AudioOutput DECK 4 2 1)
   \<and> (MASTER \<in> set AudioOutput_getSupportedTypes
      \<and> AudioOutput_fromXML (AudioOutput_toXML (AudioOutput MASTER 4 0 0)
            \<lparr>tagName = [], attributes = Map.empty\<rparr>)
          = (AudioOutput MASTER 4 0 0)\<lparr>m_channelGroup :=
                \<lparr>m_channelBase = 4, m_channels = 2\<rparr>\<rparr>)
   \<and> (AUXILLIARY \<in> set (AudioInput_getSupportedTypes False) \<and> (2 :: 8 word) \<noteq> 0
      \<and> AudioInput_fromXML False (AudioInput_toXML (AudioInput False AUXILLIARY 6 2 3)
            \<lparr>tagName = [], attributes = Map.empty\<rparr>)
          = AudioInput False AUXILLIARY 6 2 3)
   \<and> (MICROPHONE \<in> set (AudioInput_getSupportedTypes True)
      \<and> AudioInput_fromXML True (AudioInput_toXML (AudioInput True MICROPHONE 8 0 0)
            \<lparr>tagName = [], attributes = Map.empty\<rparr>)
          = (AudioInput True MICROPHONE 8 0 0)\<lparr>m_channelGroup :=
                \<lparr>m_channelBase = 8, m_channels = 1\<rparr>\<rparr>)"
proof -
  have 1: "DECK \<in> set AudioOutput_getSupportedTypes"
    and 2: "MASTER \<in> set AudioOutput_getSupportedTypes"
    by (simp_all add: AudioOutput_getSupportedTypes_def)
  have 3: "AUXILLIARY \<in> set (AudioInput_getSupportedTypes False)"
    and 4: "MICROPHONE \<in> set (AudioInput_getSupportedTypes True)"
    by (simp_all add: AudioInput_getSupportedTypes_def)
  have 5: "(2 :: 8 word) \<noteq> 0" by simp
  show ?thesis
    using 1 2 3 4 5
      toXML_fromXML_roundtrip [of DECK 2 4 1 "\<lparr>tagName = [], attributes = Map.empty\<rparr>" False]
      toXML_fromXML_roundtrip [of MASTER 0 4 0 "\<lparr>tagName = [], attributes = Map.empty\<rparr>" False]
      toXML_fromXML_roundtrip [of AUXILLIARY 2 6 3 "\<lparr>tagName = [], attributes = Map.empty\<rparr>" False]
      toXML_fromXML_roundtrip [of MICROPHONE 0 8 0 "\<lparr>tagName = [], attributes = Map.empty\<rparr>" True]
    by simp
qed

text \<open>
  The hypothesis on the type is needed: the output constructed with \<^verbatim>\<open>VINYLCONTROL\<close>
  and index 5 has the type \<^verbatim>\<open>INVALID\<close> and the index 5, and is read back with index 0.
\<close>

lemma coerced_route_read_back:
  "m_index (AudioOutput VINYLCONTROL 0 2 5) = 5
   \<and> m_index (AudioOutput_fromXML (AudioOutput_toXML (AudioOutput VINYLCONTROL 0 2 5) e)) = 0"
  by (simp add: AudioOutput_fromXML_toXML AudioOutput_fields AudioOutput_getSupportedTypes_def)

end
